theory Spec2Isabelle
  imports Main "HOL-Library.Word" "HOL-Library.Multiset"
begin

section \<open>Outcomes of a call: value, error result, run-time panic\<close>

text \<open>
  The builders return \<^verbatim>\<open>(value, error)\<close> pairs. An error is a value of the
  datatype below, one constructor per \<^verbatim>\<open>errors.New\<close> / \<^verbatim>\<open>errors.Errorf\<close>
  site of the source (the message is given beside it). A Go run-time panic
  (index out of range, a reflect call on the wrong kind) is not an error result:
  it is kept apart as \<open>Panic\<close>.
\<close>

datatype error =
    NoColumnsSpecified              \<comment> \<open>"no columns specified"\<close>
  | NoInputSpecified                \<comment> \<open>"neither VALUES nor SELECT specified"\<close>
  | EmptyValues                     \<comment> \<open>"empty values"\<close>
  | CantCreateInsertInput           \<comment> \<open>"can't create InsertInput"\<close>
  | ValuesNotSlice                  \<comment> \<open>"values it not a slice"\<close>
  | InvalidRowShape string          \<comment> \<open>"%s is neither struct nor slice", the type\<close>
  | ColumnNotFound string string    \<comment> \<open>"type %s does not have column %s": column, type\<close>
  | CantConvertRow string error     \<comment> \<open>WithMessagef "can't convert %T into SQL row": type, cause\<close>
  | UnsupportedType string
  | EmptyIdentifier
  | NoConditions
  | NoSetClause
  | NoWhereClause

datatype panic =
    IndexOutOfRange                 \<comment> \<open>\<^verbatim>\<open>xs[0]\<close> on an empty slice\<close>
  | ReflectZeroValue                \<comment> \<open>\<^verbatim>\<open>Type()\<close> or \<^verbatim>\<open>Len()\<close> on the zero \<^verbatim>\<open>reflect.Value\<close>\<close>
  | ReflectWrongKind                \<comment> \<open>\<^verbatim>\<open>Len\<close>, \<^verbatim>\<open>Index\<close>, \<^verbatim>\<open>NumField\<close> on a kind without them\<close>
  | ReflectUnexportedField          \<comment> \<open>\<^verbatim>\<open>Interface()\<close> on an unexported struct field\<close>

datatype 'a result = Ok 'a | Err error | Panic panic

section \<open>Go values as seen through reflection\<close>

text \<open>
  \<^verbatim>\<open>InsertStmt.values\<close> is an \<^verbatim>\<open>interface{}\<close> that the code inspects with
  package \<^verbatim>\<open>reflect\<close>. A dynamic value carries what the code reads: its kind, the
  text of its type, its elements or fields. \<open>VNil\<close> is the nil interface, and
  also the zero \<^verbatim>\<open>reflect.Value\<close> that \<^verbatim>\<open>reflect.ValueOf(nil)\<close> and \<^verbatim>\<open>Elem()\<close> of
  a nil pointer return. A struct field carries its declared name, the value of
  the \<^verbatim>\<open>spanner\<close> key of its tag (empty when absent), whether it is exported, and
  its value. Channels and values that implement \<^verbatim>\<open>ast.Expr\<close> are left out.
\<close>

datatype kind =
  Invalid | Bool | Integer | Uint | Float | String | Slice | Array | MapKind | Struct | Ptr | Other

datatype gvalue =
    VNil
  | VBool bool
  | VInt int
  | VUint nat
  | VFloat "64 word"
  | VString string
  | VSlice string "gvalue list"              \<comment> \<open>type text, elements\<close>
  | VArray string "gvalue list"
  | VMap string "(gvalue \<times> gvalue) list"
  | VStruct string "(string \<times> string \<times> bool \<times> gvalue) list"
      \<comment> \<open>type text; per field: name, spanner tag, exported, value\<close>
  | VPtr gvalue                              \<comment> \<open>non-nil pointer to a value\<close>
  | VNilPtr string kind                      \<comment> \<open>nil pointer: text and kind of the element type\<close>
  | VOther string                            \<comment> \<open>func, complex, uintptr, unsafe pointer\<close>

type_synonym field = "string \<times> string \<times> bool \<times> gvalue"

definition fname :: "field \<Rightarrow> string" where "fname f = fst f"
definition ftag :: "field \<Rightarrow> string" where "ftag f = fst (snd f)"
definition fexported :: "field \<Rightarrow> bool" where "fexported f = fst (snd (snd f))"
definition fvalue :: "field \<Rightarrow> gvalue" where "fvalue f = snd (snd (snd f))"

fun kind_of :: "gvalue \<Rightarrow> kind" where
  "kind_of VNil = Invalid"
| "kind_of (VBool _) = Bool"
| "kind_of (VInt _) = Integer"
| "kind_of (VUint _) = Uint"
| "kind_of (VFloat _) = Float"
| "kind_of (VString _) = String"
| "kind_of (VSlice _ _) = Slice"
| "kind_of (VArray _ _) = Array"
| "kind_of (VMap _ _) = MapKind"
| "kind_of (VStruct _ _) = Struct"
| "kind_of (VPtr _) = Ptr"
| "kind_of (VNilPtr _ _) = Ptr"
| "kind_of (VOther _) = Other"

text \<open>
  \<^verbatim>\<open>Type().String()\<close>, also what \<^verbatim>\<open>%T\<close> prints. The scalars carry no type
  text: a sized or named scalar type (\<^verbatim>\<open>int64\<close>, \<^verbatim>\<open>uint8\<close>) prints as the
  plain one. The text is used in error messages only.
\<close>

fun type_string :: "gvalue \<Rightarrow> string" where
  "type_string VNil = ''<nil>''"
| "type_string (VBool _) = ''bool''"
| "type_string (VInt _) = ''int''"
| "type_string (VUint _) = ''uint''"
| "type_string (VFloat _) = ''float64''"
| "type_string (VString _) = ''string''"
| "type_string (VSlice t _) = t"
| "type_string (VArray t _) = t"
| "type_string (VMap t _) = t"
| "type_string (VStruct t _) = t"
| "type_string (VPtr v) = CHR ''*'' # type_string v"
| "type_string (VNilPtr t _) = CHR ''*'' # t"
| "type_string (VOther t) = t"

text \<open>\<^verbatim>\<open>Type().Elem().Kind()\<close> of a pointer.\<close>

fun elem_kind :: "gvalue \<Rightarrow> kind" where
  "elem_kind (VPtr v) = kind_of v"
| "elem_kind (VNilPtr _ k) = k"
| "elem_kind _ = Invalid"

text \<open>\<^verbatim>\<open>Elem()\<close> of a pointer: the pointee, the zero Value for a nil pointer.\<close>

fun Elem :: "gvalue \<Rightarrow> gvalue" where
  "Elem (VPtr v) = v"
| "Elem _ = VNil"

text \<open>
  The values \<^verbatim>\<open>v.Index(0).Interface()\<close>, ..., \<^verbatim>\<open>v.Index(v.Len()-1).Interface()\<close>
  that a loop \<^verbatim>\<open>for i := 0; i < v.Len(); i++\<close> reads. \<^verbatim>\<open>Len\<close> panics on the zero
  Value and on kinds other than array, map, slice and string (channels are not
  modelled); \<^verbatim>\<open>Index\<close> panics on a map, which the loop reaches only when the map
  is not empty; a string is indexed by byte. \<^verbatim>\<open>Len\<close> of a pointer panics, as
  in the Go version the module declares (1.16); later versions accept a
  pointer to an array.
\<close>

fun indexed_elems :: "gvalue \<Rightarrow> gvalue list result" where
  "indexed_elems (VSlice _ xs) = Ok xs"
| "indexed_elems (VArray _ xs) = Ok xs"
| "indexed_elems (VString s) = Ok (map (\<lambda>c. VUint (of_char c)) s)"
| "indexed_elems (VMap _ kvs) = (if kvs = [] then Ok [] else Panic ReflectWrongKind)"
| "indexed_elems VNil = Panic ReflectZeroValue"
| "indexed_elems _ = Panic ReflectWrongKind"

section \<open>The syntax tree handed to the renderer\<close>

text \<open>
  The nodes of package \<^verbatim>\<open>ast\<close> that the builders construct. The package is a
  dependency, not part of the repository; only the shape of the nodes is used.
\<close>

datatype binop = OpAnd | OpOr | OpEq | OpNe | OpLt | OpLe | OpGt | OpGe

datatype expr =
    Ident string
  | Path "string list"
  | BoolLiteral bool
  | IntLiteral int
  | FloatLiteral "64 word"
  | StringLiteral string
  | BytesLiteral "nat list"
  | NullLiteral
  | Param string
  | UnaryNot expr
  | BinaryExpr binop expr expr

datatype default_expr = DefaultExpr expr
datatype values_row = ValuesRow (Exprs: "default_expr list")
datatype insert_input = ValuesInput (Rows: "values_row list")
datatype ast_where = Where_node expr
datatype Direction = ASC | DESC
datatype order_by_item = OrderByItem expr Direction

datatype ast_insert = Insert_node expr "expr list" insert_input
  \<comment> \<open>TableName, Columns, Input\<close>
datatype ast_delete = Delete_node expr ast_where
  \<comment> \<open>TableName, Where\<close>
datatype ast_select = Select_node expr "expr list" "ast_where option" "order_by_item list option" "expr option"
  \<comment> \<open>From table, Results, Where, OrderBy items, Limit count\<close>
datatype ast_update = Update_node expr "(expr \<times> expr) list" ast_where
  \<comment> \<open>TableName, Updates, Where\<close>

text \<open>
  \<^verbatim>\<open>stmt.SQL()\<close> is the renderer of package \<^verbatim>\<open>ast\<close>: a total function from a
  node to text, outside the repository. The text is represented by the node it
  is rendered from.
\<close>

datatype 'a sql = SQL 'a

section \<open>Conditions\<close>

text \<open>
  Modelled from the spec: the condition combinators (\<^verbatim>\<open>WhereCond\<close>, \<^verbatim>\<open>And\<close>,
  \<^verbatim>\<open>ToASTWhere\<close> and the expression factories) are used by the builders but
  their file is not among the sources. Spec 4.1 and 4.3: conditions are pure
  data built by \<^verbatim>\<open>Identifier\<close>, the literal factories, \<^verbatim>\<open>Parameter\<close>, \<^verbatim>\<open>Not\<close>,
  \<^verbatim>\<open>And\<close>, \<^verbatim>\<open>Or\<close> and the comparisons, whose right-hand side is a condition or
  a raw value passed through \<^verbatim>\<open>ToExpression\<close>; an \<^verbatim>\<open>Identifier\<close> with zero
  segments is an error deferred to rendering; \<^verbatim>\<open>And\<close>/\<^verbatim>\<open>Or\<close> fold their
  arguments pairwise to the left. For zero arguments the spec leaves a choice
  between rejecting and a neutral literal; rejecting is modelled, which is the
  choice under which a DELETE without WHERE fails at render time (spec 4.4).
\<close>

datatype WhereCond =
    Identifier "string list"
  | BooleanLiteral bool
  | IntegerLiteral int
  | StringLiteral' string
  | Parameter string
  | Not_cond WhereCond
  | And "WhereCond list"
  | Or "WhereCond list"
  | Compare binop WhereCond operand
and operand = Built WhereCond | Raw gvalue

text \<open>
  \<^verbatim>\<open>internal.ToExpr\<close> is not among the sources either. The functions that call
  it take it as the parameter \<open>te\<close>, so that what is proved about them holds
  for every encoder of single values.
\<close>

type_synonym encoder = "gvalue \<Rightarrow> expr result"

text \<open>
  Modelled from the spec: the expression of a condition (spec 4.1, 4.3), with
  the deferred errors; the code of \<^verbatim>\<open>ToASTWhere\<close> is not among the sources.
\<close>

fun ToASTExpr :: "encoder \<Rightarrow> WhereCond \<Rightarrow> expr result"
  and ToASTExprs :: "encoder \<Rightarrow> WhereCond list \<Rightarrow> expr list result"
  and operand_expr :: "encoder \<Rightarrow> operand \<Rightarrow> expr result" where
  "ToASTExpr te (Identifier segs) =
     (case segs of [] \<Rightarrow> Err EmptyIdentifier | [a] \<Rightarrow> Ok (Ident a) | _ \<Rightarrow> Ok (Path segs))"
| "ToASTExpr te (BooleanLiteral b) = Ok (BoolLiteral b)"
| "ToASTExpr te (IntegerLiteral n) = Ok (IntLiteral n)"
| "ToASTExpr te (StringLiteral' s) = Ok (StringLiteral s)"
| "ToASTExpr te (Parameter n) = Ok (Param n)"
| "ToASTExpr te (Not_cond c) =
     (case ToASTExpr te c of Ok e \<Rightarrow> Ok (UnaryNot e) | Err x \<Rightarrow> Err x | Panic p \<Rightarrow> Panic p)"
| "ToASTExpr te (And cs) =
     (case ToASTExprs te cs of
        Ok [] \<Rightarrow> Err NoConditions
      | Ok (e # es) \<Rightarrow> Ok (foldl (BinaryExpr OpAnd) e es)
      | Err x \<Rightarrow> Err x | Panic p \<Rightarrow> Panic p)"
| "ToASTExpr te (Or cs) =
     (case ToASTExprs te cs of
        Ok [] \<Rightarrow> Err NoConditions
      | Ok (e # es) \<Rightarrow> Ok (foldl (BinaryExpr OpOr) e es)
      | Err x \<Rightarrow> Err x | Panic p \<Rightarrow> Panic p)"
| "ToASTExpr te (Compare op l r) =
     (case ToASTExpr te l of
        Ok a \<Rightarrow> (case operand_expr te r of
                   Ok b \<Rightarrow> Ok (BinaryExpr op a b) | Err x \<Rightarrow> Err x | Panic p \<Rightarrow> Panic p)
      | Err x \<Rightarrow> Err x | Panic p \<Rightarrow> Panic p)"
| "ToASTExprs te [] = Ok []"
| "ToASTExprs te (c # cs) =
     (case ToASTExpr te c of
        Ok e \<Rightarrow> (case ToASTExprs te cs of
                   Ok es \<Rightarrow> Ok (e # es) | Err x \<Rightarrow> Err x | Panic p \<Rightarrow> Panic p)
      | Err x \<Rightarrow> Err x | Panic p \<Rightarrow> Panic p)"
| "operand_expr te (Built c) = ToASTExpr te c"
| "operand_expr te (Raw v) = te v"

text \<open>Modelled from the spec: \<^verbatim>\<open>ToASTWhere\<close> wraps the expression of the condition.\<close>

definition ToASTWhere :: "encoder \<Rightarrow> WhereCond \<Rightarrow> ast_where result" where
  "ToASTWhere te c =
     (case ToASTExpr te c of Ok e \<Rightarrow> Ok (Where_node e) | Err x \<Rightarrow> Err x | Panic p \<Rightarrow> Panic p)"

section \<open>Slices and their backing arrays\<close>

text \<open>
  \<^verbatim>\<open>conds\<close> and \<^verbatim>\<open>ords\<close> are Go slices that the builders extend with
  \<^verbatim>\<open>append\<close> after copying the struct, so two statements can refer to one
  backing array. A slice is a reference into a store of arrays: the address of
  its array, its length and its capacity. The builders never reslice, so every
  slice starts at the first cell of its array, and the store keeps of each
  array the cells written so far. The nil slice has length and capacity 0.

  \<^verbatim>\<open>append(s, xs...)\<close>: when the capacity suffices, the new elements are
  written into the array of \<open>s\<close> behind its length and the result shares that
  array; otherwise a new array is allocated, whose capacity the run-time system
  chooses from the old capacity and the length needed (\<open>grow\<close>, a parameter).
\<close>

record slice =
  ptr :: nat
  len :: nat
  cap :: nat

definition nil_slice :: slice where
  "nil_slice = \<lparr>ptr = 0, len = 0, cap = 0\<rparr>"

definition slice_elems :: "'a list list \<Rightarrow> slice \<Rightarrow> 'a list" where
  "slice_elems arrays s = take (len s) (arrays ! ptr s)"

definition append_slice ::
  "(nat \<Rightarrow> nat \<Rightarrow> nat) \<Rightarrow> 'a list list \<Rightarrow> slice \<Rightarrow> 'a list \<Rightarrow> 'a list list \<times> slice" where
  "append_slice grow arrays s xs =
     (let n = len s + length xs in
      if n \<le> cap s then
        (arrays[ptr s := take (len s) (arrays ! ptr s) @ xs @ drop n (arrays ! ptr s)],
         s\<lparr>len := n\<rparr>)
      else
        (arrays @ [take (len s) (arrays ! ptr s) @ xs],
         \<lparr>ptr = length arrays, len = n, cap = grow (cap s) n\<rparr>))"

text \<open>
  The growth of the Go run-time system (\<^verbatim>\<open>runtime.growslice\<close>) for short
  slices, fewer than 256 elements (1024 before Go 1.18): twice the old
  capacity, or the length needed when that is more. (The allocator then rounds
  the byte size up to a size class; 1, 2 and 4 elements of an interface or
  pointer type are size classes, so these capacities are exact. At other
  lengths the rounding can give more: 17 elements of 16 bytes get capacity
  18, where this function gives 17.)
\<close>

definition growslice :: "nat \<Rightarrow> nat \<Rightarrow> nat" where
  "growslice oldCap newLen = (if 2 * oldCap < newLen then newLen else 2 * oldCap)"

type_synonym ordering = "string \<times> Direction"

record heap =
  cond_arrays :: "WhereCond list list"
  ord_arrays :: "ordering list list"

definition empty_heap :: heap where
  "empty_heap = \<lparr>cond_arrays = [], ord_arrays = []\<rparr>"

section \<open>SELECT\<close>

record SelectStmt =
  table :: string
  cols :: "string list"
  conds :: slice
  ords :: slice
  limit :: "int option"

definition toASTOrderByItem :: "ordering \<Rightarrow> order_by_item" where
  "toASTOrderByItem o' = OrderByItem (Ident (fst o')) (snd o')"

definition Select :: "string \<Rightarrow> string list \<Rightarrow> SelectStmt" where
  "Select t cs = \<lparr>table = t, cols = cs, conds = nil_slice, ords = nil_slice, limit = None\<rparr>"

definition SelectStmt_Where ::
  "(nat \<Rightarrow> nat \<Rightarrow> nat) \<Rightarrow> heap \<Rightarrow> SelectStmt \<Rightarrow> WhereCond list \<Rightarrow> heap \<times> SelectStmt" where
  "SelectStmt_Where grow h s cs =
     (let (arrays, sl) = append_slice grow (cond_arrays h) (conds s) cs
      in (h\<lparr>cond_arrays := arrays\<rparr>, s\<lparr>conds := sl\<rparr>))"

definition SelectStmt_OrderBy ::
  "(nat \<Rightarrow> nat \<Rightarrow> nat) \<Rightarrow> heap \<Rightarrow> SelectStmt \<Rightarrow> string \<Rightarrow> Direction \<Rightarrow> heap \<times> SelectStmt" where
  "SelectStmt_OrderBy grow h s col dir =
     (let (arrays, sl) = append_slice grow (ord_arrays h) (ords s) [(col, dir)]
      in (h\<lparr>ord_arrays := arrays\<rparr>, s\<lparr>ords := sl\<rparr>))"

definition SelectStmt_Limit :: "SelectStmt \<Rightarrow> int \<Rightarrow> SelectStmt" where
  "SelectStmt_Limit s n = s\<lparr>limit := Some n\<rparr>"

definition SelectStmt_toAST :: "encoder \<Rightarrow> heap \<Rightarrow> SelectStmt \<Rightarrow> ast_select result" where
  "SelectStmt_toAST te h s =
     (case (if len (conds s) > 0
            then (case ToASTWhere te (And (slice_elems (cond_arrays h) (conds s))) of
                    Ok w \<Rightarrow> Ok (Some w) | Err x \<Rightarrow> Err x | Panic p \<Rightarrow> Panic p)
            else Ok None) of
        Err x \<Rightarrow> Err x
      | Panic p \<Rightarrow> Panic p
      | Ok where' \<Rightarrow>
          if length (cols s) \<le> 0 then Err NoColumnsSpecified
          else
            let items = map Ident (cols s);
                orderBy = (if len (ords s) > 0
                           then Some (map toASTOrderByItem (slice_elems (ord_arrays h) (ords s)))
                           else None);
                limit' = (case limit s of Some n \<Rightarrow> Some (IntLiteral n) | None \<Rightarrow> None)
            in Ok (Select_node (Ident (table s)) items where' orderBy limit'))"

definition SelectStmt_SQL :: "encoder \<Rightarrow> heap \<Rightarrow> SelectStmt \<Rightarrow> ast_select sql result" where
  "SelectStmt_SQL te h s =
     (case SelectStmt_toAST te h s of
        Err x \<Rightarrow> Err x | Panic p \<Rightarrow> Panic p | Ok stmt \<Rightarrow> Ok (SQL stmt))"

section \<open>DELETE\<close>

record DeleteStmt =
  table :: string
  conds :: slice

definition Delete :: "string \<Rightarrow> DeleteStmt" where
  "Delete t = \<lparr>DeleteStmt.table = t, DeleteStmt.conds = nil_slice\<rparr>"

definition DeleteStmt_Where ::
  "(nat \<Rightarrow> nat \<Rightarrow> nat) \<Rightarrow> heap \<Rightarrow> DeleteStmt \<Rightarrow> WhereCond list \<Rightarrow> heap \<times> DeleteStmt" where
  "DeleteStmt_Where grow h s cs =
     (let (arrays, sl) = append_slice grow (cond_arrays h) (DeleteStmt.conds s) cs
      in (h\<lparr>cond_arrays := arrays\<rparr>,
          \<lparr>DeleteStmt.table = DeleteStmt.table s, DeleteStmt.conds = sl\<rparr>))"

definition DeleteStmt_toAST :: "encoder \<Rightarrow> heap \<Rightarrow> DeleteStmt \<Rightarrow> ast_delete result" where
  "DeleteStmt_toAST te h s =
     (case ToASTWhere te (And (slice_elems (cond_arrays h) (DeleteStmt.conds s))) of
        Err x \<Rightarrow> Err x
      | Panic p \<Rightarrow> Panic p
      | Ok cond \<Rightarrow> Ok (Delete_node (Ident (DeleteStmt.table s)) cond))"

definition DeleteStmt_SQL :: "encoder \<Rightarrow> heap \<Rightarrow> DeleteStmt \<Rightarrow> ast_delete sql result" where
  "DeleteStmt_SQL te h s =
     (case DeleteStmt_toAST te h s of
        Err x \<Rightarrow> Err x | Panic p \<Rightarrow> Panic p | Ok stmt \<Rightarrow> Ok (SQL stmt))"

section \<open>INSERT\<close>

record InsertStmt =
  table :: string
  cols :: "string list"
  values' :: gvalue

definition Insert :: "string \<Rightarrow> string list \<Rightarrow> InsertStmt" where
  "Insert t cs = \<lparr>InsertStmt.table = t, InsertStmt.cols = cs, values' = VNil\<rparr>"

definition Values :: "InsertStmt \<Rightarrow> gvalue \<Rightarrow> InsertStmt" where
  "Values s v = \<lparr>InsertStmt.table = InsertStmt.table s, InsertStmt.cols = InsertStmt.cols s, values' = v\<rparr>"

definition columnNameOf :: "field \<Rightarrow> string option" where
  "columnNameOf f =
     (if ftag f = [] then Some (fname f)
      else if ftag f = ''-'' then None
      else Some (ftag f))"

text \<open>The loop of \<^verbatim>\<open>sliceToValuesRow\<close> over the elements, \<open>exprs\<close> being \<^verbatim>\<open>row.Exprs\<close>.\<close>

fun sliceRowLoop :: "encoder \<Rightarrow> gvalue list \<Rightarrow> default_expr list \<Rightarrow> values_row result" where
  "sliceRowLoop te [] exprs = Ok (ValuesRow exprs)"
| "sliceRowLoop te (x # xs) exprs =
     (case te x of
        Err e \<Rightarrow> Err e
      | Panic p \<Rightarrow> Panic p
      | Ok expr \<Rightarrow> sliceRowLoop te xs (exprs @ [DefaultExpr expr]))"

definition sliceToValuesRow :: "encoder \<Rightarrow> InsertStmt \<Rightarrow> gvalue \<Rightarrow> values_row result" where
  "sliceToValuesRow te s valV =
     (case indexed_elems valV of
        Err e \<Rightarrow> Err e
      | Panic p \<Rightarrow> Panic p
      | Ok xs \<Rightarrow> sliceRowLoop te xs [])"

text \<open>
  The inner loop of \<^verbatim>\<open>structToValuesRow\<close>, over the fields for one column:
  the state is \<^verbatim>\<open>colFound\<close> and \<^verbatim>\<open>row.Exprs\<close>.
\<close>

fun fieldLoop ::
  "encoder \<Rightarrow> string \<Rightarrow> field list \<Rightarrow> bool \<times> default_expr list \<Rightarrow> (bool \<times> default_expr list) result" where
  "fieldLoop te colName [] st = Ok st"
| "fieldLoop te colName (ft # fts) (colFound, exprs) =
     (case columnNameOf ft of
        None \<Rightarrow> fieldLoop te colName fts (colFound, exprs)
      | Some fieldName \<Rightarrow>
          if fieldName \<noteq> colName then fieldLoop te colName fts (colFound, exprs)
          else if \<not> fexported ft then Panic ReflectUnexportedField
          else (case te (fvalue ft) of
                  Err e \<Rightarrow> Err e
                | Panic p \<Rightarrow> Panic p
                | Ok expr \<Rightarrow> fieldLoop te colName fts (True, exprs @ [DefaultExpr expr])))"

text \<open>The outer loop, over the columns of the statement.\<close>

fun columnLoop ::
  "encoder \<Rightarrow> string \<Rightarrow> field list \<Rightarrow> string list \<Rightarrow> default_expr list \<Rightarrow> values_row result" where
  "columnLoop te valT fts [] exprs = Ok (ValuesRow exprs)"
| "columnLoop te valT fts (colName # colNames) exprs =
     (case fieldLoop te colName fts (False, exprs) of
        Err e \<Rightarrow> Err e
      | Panic p \<Rightarrow> Panic p
      | Ok (colFound, exprs') \<Rightarrow>
          if \<not> colFound then Err (ColumnNotFound colName valT)
          else columnLoop te valT fts colNames exprs')"

fun structToValuesRow :: "encoder \<Rightarrow> InsertStmt \<Rightarrow> gvalue \<Rightarrow> values_row result" where
  "structToValuesRow te s (VStruct valT fts) = columnLoop te valT fts (InsertStmt.cols s) []"
| "structToValuesRow te s VNil = Panic ReflectZeroValue"
| "structToValuesRow te s _ = Panic ReflectWrongKind"

definition toValuesRow :: "encoder \<Rightarrow> InsertStmt \<Rightarrow> gvalue \<Rightarrow> values_row result" where
  "toValuesRow te s val =
     (if val = VNil then Panic ReflectZeroValue
      else if kind_of val = Slice then sliceToValuesRow te s val
      else if kind_of val = Struct then structToValuesRow te s val
      else if kind_of val = Ptr then
        (if elem_kind val = Struct then structToValuesRow te s (Elem val)
         else Err (InvalidRowShape (type_string val)))
      else Err (InvalidRowShape (type_string val)))"

fun insertRowsLoop ::
  "encoder \<Rightarrow> InsertStmt \<Rightarrow> gvalue list \<Rightarrow> values_row list \<Rightarrow> insert_input result" where
  "insertRowsLoop te s [] rows = Ok (ValuesInput rows)"
| "insertRowsLoop te s (rowI # rowIs) rows =
     (case toValuesRow te s rowI of
        Err e \<Rightarrow> Err (CantConvertRow (type_string rowI) e)
      | Panic p \<Rightarrow> Panic p
      | Ok row \<Rightarrow> insertRowsLoop te s rowIs (rows @ [row]))"

definition sliceToInsertInput :: "encoder \<Rightarrow> InsertStmt \<Rightarrow> gvalue \<Rightarrow> insert_input result" where
  "sliceToInsertInput te s rowsV =
     (case indexed_elems rowsV of
        Err e \<Rightarrow> Err e
      | Panic p \<Rightarrow> Panic p
      | Ok rowIs \<Rightarrow>
          if length rowIs \<le> 0 then Err EmptyValues
          else insertRowsLoop te s rowIs [])"

definition InsertStmt_toAST :: "encoder \<Rightarrow> InsertStmt \<Rightarrow> ast_insert result" where
  "InsertStmt_toAST te s =
     (let cols' = map Ident (InsertStmt.cols s) in
      if values' s = VNil then Err NoInputSpecified
      else if kind_of (values' s) = Slice then
        (case sliceToInsertInput te s (values' s) of
           Err e \<Rightarrow> Err e
         | Panic p \<Rightarrow> Panic p
         | Ok input \<Rightarrow> Ok (Insert_node (Ident (InsertStmt.table s)) cols' input))
      else Err CantCreateInsertInput)"

definition InsertStmt_SQL :: "encoder \<Rightarrow> InsertStmt \<Rightarrow> ast_insert sql result" where
  "InsertStmt_SQL te s =
     (case InsertStmt_toAST te s of
        Err x \<Rightarrow> Err x | Panic p \<Rightarrow> Panic p | Ok stmt \<Rightarrow> Ok (SQL stmt))"

section \<open>The second definition of DELETE and INSERT\<close>

text \<open>
  The unnamed source file defines \<^verbatim>\<open>Delete\<close>, \<^verbatim>\<open>DeleteStmt\<close> and the methods of
  \<^verbatim>\<open>InsertStmt\<close> a second time, differently: \<^verbatim>\<open>Delete\<close> takes the conditions at
  construction and \<^verbatim>\<open>toAST\<close> uses the first one only; \<^verbatim>\<open>InsertStmt.toAST\<close> does
  not test for nil and \<^verbatim>\<open>toValuesRow\<close> does not test the kind of a row. Their
  names carry the suffix \<open>_variadic\<close>. \<^verbatim>\<open>InsertStmt\<close>, \<^verbatim>\<open>Insert\<close> and \<^verbatim>\<open>Values\<close> are
  the same in both files. The conditions of this \<^verbatim>\<open>DeleteStmt\<close> are never
  appended to, so they are a plain list.
\<close>

record DeleteStmt_variadic =
  table :: string
  conds :: "WhereCond list"

definition Delete_variadic :: "string \<Rightarrow> WhereCond list \<Rightarrow> DeleteStmt_variadic" where
  "Delete_variadic t cs = \<lparr>DeleteStmt_variadic.table = t, DeleteStmt_variadic.conds = cs\<rparr>"

definition DeleteStmt_toAST_variadic :: "encoder \<Rightarrow> DeleteStmt_variadic \<Rightarrow> ast_delete result" where
  "DeleteStmt_toAST_variadic te ds =
     (case DeleteStmt_variadic.conds ds of
        [] \<Rightarrow> Panic IndexOutOfRange
      | c # _ \<Rightarrow>
          (case ToASTWhere te c of
             Err x \<Rightarrow> Err x
           | Panic p \<Rightarrow> Panic p
           | Ok cond \<Rightarrow> Ok (Delete_node (Ident (DeleteStmt_variadic.table ds)) cond)))"

definition DeleteStmt_SQL_variadic :: "encoder \<Rightarrow> DeleteStmt_variadic \<Rightarrow> ast_delete sql result" where
  "DeleteStmt_SQL_variadic te ds =
     (case DeleteStmt_toAST_variadic te ds of
        Err x \<Rightarrow> Err x | Panic p \<Rightarrow> Panic p | Ok stmt \<Rightarrow> Ok (SQL stmt))"

definition toValuesRow_variadic :: "encoder \<Rightarrow> gvalue \<Rightarrow> values_row result" where
  "toValuesRow_variadic te val =
     (case indexed_elems val of
        Err e \<Rightarrow> Err e
      | Panic p \<Rightarrow> Panic p
      | Ok xs \<Rightarrow> sliceRowLoop te xs [])"

fun insertRowsLoop_variadic ::
  "encoder \<Rightarrow> gvalue list \<Rightarrow> values_row list \<Rightarrow> insert_input result" where
  "insertRowsLoop_variadic te [] rows = Ok (ValuesInput rows)"
| "insertRowsLoop_variadic te (rowI # rowIs) rows =
     (case toValuesRow_variadic te rowI of
        Err e \<Rightarrow> Err (CantConvertRow (type_string rowI) e)
      | Panic p \<Rightarrow> Panic p
      | Ok row \<Rightarrow> insertRowsLoop_variadic te rowIs (rows @ [row]))"

definition InsertStmt_toAST_variadic :: "encoder \<Rightarrow> InsertStmt \<Rightarrow> ast_insert result" where
  "InsertStmt_toAST_variadic te s =
     (let cols' = map Ident (InsertStmt.cols s) in
      if values' s = VNil then Panic ReflectZeroValue
      else if kind_of (values' s) \<noteq> Slice then Err ValuesNotSlice
      else (case indexed_elems (values' s) of
              Err e \<Rightarrow> Err e
            | Panic p \<Rightarrow> Panic p
            | Ok rowIs \<Rightarrow>
                if length rowIs \<le> 0 then Err EmptyValues
                else (case insertRowsLoop_variadic te rowIs [] of
                        Err e \<Rightarrow> Err e
                      | Panic p \<Rightarrow> Panic p
                      | Ok input \<Rightarrow> Ok (Insert_node (Ident (InsertStmt.table s)) cols' input))))"

definition InsertStmt_SQL_variadic :: "encoder \<Rightarrow> InsertStmt \<Rightarrow> ast_insert sql result" where
  "InsertStmt_SQL_variadic te s =
     (case InsertStmt_toAST_variadic te s of
        Err x \<Rightarrow> Err x | Panic p \<Rightarrow> Panic p | Ok stmt \<Rightarrow> Ok (SQL stmt))"

section \<open>UPDATE\<close>

text \<open>
  Modelled from the spec: the UPDATE builder (\<^verbatim>\<open>Update\<close>, \<^verbatim>\<open>Set\<close>, \<^verbatim>\<open>Where\<close>,
  \<^verbatim>\<open>SQL\<close>) is not among the sources; only its test file is. Spec 3 and 4.4: a
  statement holds the table name, the assignments in call order (target
  identifier and value, duplicates kept) and the conditions; \<^verbatim>\<open>Set\<close> and
  \<^verbatim>\<open>Where\<close> append and return a new value. Spec 4.5: rendering first validates
  the required clauses, at least one assignment (else \<^verbatim>\<open>NoSetClause\<close>) and a
  non-empty WHERE (else \<^verbatim>\<open>NoWhereClause\<close>), then assembles the expressions for
  WHERE and SET. The value of an assignment is a built expression or a raw
  value passed through \<^verbatim>\<open>ToExpression\<close>, as in the tests.
\<close>

record UpdateStmt =
  table :: string
  sets :: "(string list \<times> operand) list"
  conds :: "WhereCond list"

text \<open>Modelled from the spec: \<^verbatim>\<open>Update(table)\<close>, no assignment and no condition yet.\<close>

definition Update :: "string \<Rightarrow> UpdateStmt" where
  "Update t = \<lparr>UpdateStmt.table = t, sets = [], UpdateStmt.conds = []\<rparr>"

text \<open>Modelled from the spec: \<^verbatim>\<open>Set\<close> appends one assignment to a copy.\<close>

definition UpdateStmt_Set :: "UpdateStmt \<Rightarrow> string list \<Rightarrow> operand \<Rightarrow> UpdateStmt" where
  "UpdateStmt_Set s target v =
     \<lparr>UpdateStmt.table = UpdateStmt.table s, sets = sets s @ [(target, v)],
      UpdateStmt.conds = UpdateStmt.conds s\<rparr>"

text \<open>Modelled from the spec: \<^verbatim>\<open>Where\<close> appends the conditions to a copy.\<close>

definition UpdateStmt_Where :: "UpdateStmt \<Rightarrow> WhereCond list \<Rightarrow> UpdateStmt" where
  "UpdateStmt_Where s cs =
     \<lparr>UpdateStmt.table = UpdateStmt.table s, sets = sets s,
      UpdateStmt.conds = UpdateStmt.conds s @ cs\<rparr>"

text \<open>Modelled from the spec: the SET items, target and value, in call order.\<close>

fun assignments :: "encoder \<Rightarrow> (string list \<times> operand) list \<Rightarrow> (expr \<times> expr) list result" where
  "assignments te [] = Ok []"
| "assignments te ((target, v) # rest) =
     (case ToASTExpr te (Identifier target) of
        Err x \<Rightarrow> Err x
      | Panic p \<Rightarrow> Panic p
      | Ok l \<Rightarrow>
          (case operand_expr te v of
             Err x \<Rightarrow> Err x
           | Panic p \<Rightarrow> Panic p
           | Ok r \<Rightarrow>
               (case assignments te rest of
                  Err x \<Rightarrow> Err x
                | Panic p \<Rightarrow> Panic p
                | Ok as \<Rightarrow> Ok ((l, r) # as))))"

text \<open>
  Modelled from the spec: validation of the required clauses (spec 4.4, 4.5),
  SET before WHERE, then the assembly of the tree.
\<close>

definition UpdateStmt_toAST :: "encoder \<Rightarrow> UpdateStmt \<Rightarrow> ast_update result" where
  "UpdateStmt_toAST te s =
     (if sets s = [] then Err NoSetClause
      else if UpdateStmt.conds s = [] then Err NoWhereClause
      else (case ToASTWhere te (And (UpdateStmt.conds s)) of
              Err x \<Rightarrow> Err x
            | Panic p \<Rightarrow> Panic p
            | Ok w \<Rightarrow>
                (case assignments te (sets s) of
                   Err x \<Rightarrow> Err x
                 | Panic p \<Rightarrow> Panic p
                 | Ok as \<Rightarrow> Ok (Update_node (Ident (UpdateStmt.table s)) as w))))"

text \<open>Modelled from the spec: \<^verbatim>\<open>SQL()\<close> renders the tree or returns the error.\<close>

definition UpdateStmt_SQL :: "encoder \<Rightarrow> UpdateStmt \<Rightarrow> ast_update sql result" where
  "UpdateStmt_SQL te s =
     (case UpdateStmt_toAST te s of
        Err x \<Rightarrow> Err x | Panic p \<Rightarrow> Panic p | Ok stmt \<Rightarrow> Ok (SQL stmt))"

text \<open>A chain of builder calls on \<^verbatim>\<open>Update(t)\<close>, as the tests write them.\<close>

datatype update_call = Set_call "string list" operand | Where_call "WhereCond list"

fun is_Set_call :: "update_call \<Rightarrow> bool" where
  "is_Set_call (Set_call _ _) = True"
| "is_Set_call (Where_call _) = False"

fun apply_call :: "UpdateStmt \<Rightarrow> update_call \<Rightarrow> UpdateStmt" where
  "apply_call s (Set_call target v) = UpdateStmt_Set s target v"
| "apply_call s (Where_call cs) = UpdateStmt_Where s cs"

definition update_chain :: "string \<Rightarrow> update_call list \<Rightarrow> UpdateStmt" where
  "update_chain t calls = foldl apply_call (Update t) calls"

text \<open>A chain of \<^verbatim>\<open>Where\<close> calls on a DELETE statement, each with its conditions.\<close>

fun delete_chain ::
  "(nat \<Rightarrow> nat \<Rightarrow> nat) \<Rightarrow> heap \<Rightarrow> DeleteStmt \<Rightarrow> WhereCond list list \<Rightarrow> heap \<times> DeleteStmt" where
  "delete_chain grow h s [] = (h, s)"
| "delete_chain grow h s (cs # css) =
     (case DeleteStmt_Where grow h s cs of (h', s') \<Rightarrow> delete_chain grow h' s' css)"

section \<open>Encoding single values\<close>

text \<open>The value of a byte, for the elements of a \<^verbatim>\<open>[]byte\<close>.\<close>

fun byte_of :: "gvalue \<Rightarrow> nat" where
  "byte_of (VUint n) = n"
| "byte_of _ = 0"

text \<open>
  Modelled from the spec: \<^verbatim>\<open>internal.ToExpr\<close> is not among the sources. Spec
  4.2: total over integers, floating point, booleans, strings, byte sequences
  and nil (the null literal); \<^verbatim>\<open>UnsupportedType\<close> for anything else. (Values
  that are already expressions pass through; the values modelled here are
  plain data.) It instantiates the parameter \<open>te\<close> where a statement is
  evaluated on a concrete input.
\<close>

fun ToExpr :: encoder where
  "ToExpr VNil = Ok NullLiteral"
| "ToExpr (VBool b) = Ok (BoolLiteral b)"
| "ToExpr (VInt n) = Ok (IntLiteral n)"
| "ToExpr (VUint n) = Ok (IntLiteral (int n))"
| "ToExpr (VFloat w) = Ok (FloatLiteral w)"
| "ToExpr (VString s) = Ok (StringLiteral s)"
| "ToExpr (VSlice t xs) =
     (if t = ''[]uint8'' then Ok (BytesLiteral (map byte_of xs)) else Err (UnsupportedType t))"
| "ToExpr v = Err (UnsupportedType (type_string v))"

text \<open>The fields of a struct that resolve to a column, in declaration order.\<close>

definition matching :: "string \<Rightarrow> field list \<Rightarrow> field list" where
  "matching colName fts = filter (\<lambda>ft. columnNameOf ft = Some colName) fts"



section \<open>What SELECT requires\<close>

lemma nil_slice_elems [simp]: "slice_elems arrays nil_slice = []"
  by (simp add: slice_elems_def nil_slice_def)

text \<open>
  Claim C7. \<^verbatim>\<open>Select(table, []).SQL()\<close> fails with "no columns specified",
  for every table name. With a non-empty column list \<^verbatim>\<open>Select(table, cols).SQL()\<close>
  succeeds; and on any SELECT statement whose column list is not empty, an
  error of \<^verbatim>\<open>SQL()\<close> is the error of its WHERE conditions, so the render does
  not fail on the column check.
\<close>

theorem select_columns_required:
  "SelectStmt_SQL te h (Select t []) = Err NoColumnsSpecified \<and>
   (cs \<noteq> [] \<longrightarrow>
      SelectStmt_SQL te h (Select t cs) = Ok (SQL (Select_node (Ident t) (map Ident cs) None None None))) \<and>
   (SelectStmt.cols s \<noteq> [] \<and> SelectStmt_SQL te h s = Err e \<longrightarrow>
      len (SelectStmt.conds s) > 0 \<and>
      ToASTWhere te (And (slice_elems (cond_arrays h) (SelectStmt.conds s))) = Err e)"
  by (auto simp: SelectStmt_SQL_def SelectStmt_toAST_def Select_def nil_slice_def Let_def
      split: result.splits option.splits if_splits)

theorem select_columns_required_witness:
  "SelectStmt_SQL ToExpr empty_heap (Select ''t'' []) = Err NoColumnsSpecified \<and>
   [''a'', ''b''] \<noteq> [] \<and>
   SelectStmt_SQL ToExpr empty_heap (Select ''t'' [''a'', ''b''])
     = Ok (SQL (Select_node (Ident ''t'') [Ident ''a'', Ident ''b''] None None None)) \<and>
   SelectStmt.cols (snd (SelectStmt_Where growslice empty_heap (Select ''t'' [''a'']) [Identifier []])) \<noteq> [] \<and>
   SelectStmt_SQL ToExpr (fst (SelectStmt_Where growslice empty_heap (Select ''t'' [''a'']) [Identifier []]))
      (snd (SelectStmt_Where growslice empty_heap (Select ''t'' [''a'']) [Identifier []])) = Err EmptyIdentifier"
  using select_columns_required [of ToExpr empty_heap "''t''" "[''a'', ''b'']"
    "snd (SelectStmt_Where growslice empty_heap (Select ''t'' [''a'']) [Identifier []])" EmptyIdentifier]
  by (simp add: SelectStmt_Where_def append_slice_def Select_def nil_slice_def empty_heap_def
      growslice_def slice_elems_def SelectStmt_SQL_def SelectStmt_toAST_def ToASTWhere_def Let_def)

section \<open>What UPDATE requires\<close>

lemma foldl_sets_empty:
  "\<forall>c\<in>set calls. \<not> is_Set_call c \<Longrightarrow> sets (foldl apply_call s calls) = sets s"
proof (induction calls arbitrary: s)
  case Nil
  show ?case by simp
next
  case (Cons c calls)
  then show ?case by (cases c) (simp_all add: UpdateStmt_Where_def)
qed

lemma apply_call_sets_mono: "sets s \<noteq> [] \<Longrightarrow> sets (apply_call s c) \<noteq> []"
  by (cases c) (simp_all add: UpdateStmt_Where_def UpdateStmt_Set_def)

lemma foldl_sets_nonempty: "sets s \<noteq> [] \<Longrightarrow> sets (foldl apply_call s calls) \<noteq> []"
  by (induction calls arbitrary: s) (simp_all add: apply_call_sets_mono)

lemma foldl_sets_some:
  "\<exists>c\<in>set calls. is_Set_call c \<Longrightarrow> sets (foldl apply_call s calls) \<noteq> []"
proof (induction calls arbitrary: s)
  case Nil
  then show ?case by simp
next
  case (Cons c calls)
  show ?case
  proof (cases c)
    case (Set_call target v)
    then show ?thesis by (simp add: UpdateStmt_Set_def foldl_sets_nonempty)
  next
    case (Where_call cs)
    with Cons show ?thesis by simp
  qed
qed

lemma foldl_conds_empty:
  "\<forall>c\<in>set calls. is_Set_call c \<Longrightarrow>
     UpdateStmt.conds (foldl apply_call s calls) = UpdateStmt.conds s"
proof (induction calls arbitrary: s)
  case Nil
  show ?case by simp
next
  case (Cons c calls)
  then show ?case by (cases c) (simp_all add: UpdateStmt_Set_def)
qed

text \<open>
  Claim C4. For every chain of calls on \<^verbatim>\<open>Update(t)\<close>: when no call is a
  \<^verbatim>\<open>Set\<close>, \<^verbatim>\<open>SQL()\<close> fails with \<^verbatim>\<open>NoSetClause\<close>; when there is at least one
  \<^verbatim>\<open>Set\<close> call and no \<^verbatim>\<open>Where\<close> call, it fails with \<^verbatim>\<open>NoWhereClause\<close>.
\<close>

theorem update_requires_set_then_where:
  "((\<forall>c\<in>set calls. \<not> is_Set_call c) \<longrightarrow>
      UpdateStmt_SQL te (update_chain t calls) = Err NoSetClause) \<and>
   (calls \<noteq> [] \<and> (\<forall>c\<in>set calls. is_Set_call c) \<longrightarrow>
      UpdateStmt_SQL te (update_chain t calls) = Err NoWhereClause)"
proof (intro conjI impI)
  assume "\<forall>c\<in>set calls. \<not> is_Set_call c"
  then have "sets (update_chain t calls) = []"
    by (simp add: update_chain_def foldl_sets_empty Update_def)
  then show "UpdateStmt_SQL te (update_chain t calls) = Err NoSetClause"
    by (simp add: UpdateStmt_SQL_def UpdateStmt_toAST_def)
next
  assume a: "calls \<noteq> [] \<and> (\<forall>c\<in>set calls. is_Set_call c)"
  then have "\<exists>c\<in>set calls. is_Set_call c" by (cases calls) auto
  then have s: "sets (update_chain t calls) \<noteq> []"
    by (simp add: update_chain_def foldl_sets_some)
  from a have "UpdateStmt.conds (update_chain t calls) = []"
    by (simp add: update_chain_def foldl_conds_empty Update_def)
  with s show "UpdateStmt_SQL te (update_chain t calls) = Err NoWhereClause"
    by (simp add: UpdateStmt_SQL_def UpdateStmt_toAST_def)
qed

theorem update_requires_set_then_where_witness:
  "list_all (\<lambda>c. \<not> is_Set_call c) [Where_call [Compare OpEq (Identifier [''a'']) (Raw (VInt 1))]] \<and>
   UpdateStmt_SQL ToExpr (update_chain ''hoge'' [Where_call [Compare OpEq (Identifier [''a'']) (Raw (VInt 1))]])
     = Err NoSetClause \<and>
   [Set_call [''a''] (Raw (VInt 1))] \<noteq> [] \<and>
   list_all is_Set_call [Set_call [''a''] (Raw (VInt 1))] \<and>
   UpdateStmt_SQL ToExpr (update_chain ''hoge'' [Set_call [''a''] (Raw (VInt 1))]) = Err NoWhereClause"
  using update_requires_set_then_where
      [of "[Where_call [Compare OpEq (Identifier [''a'']) (Raw (VInt 1))]]" ToExpr "''hoge''"]
    update_requires_set_then_where [of "[Set_call [''a''] (Raw (VInt 1))]" ToExpr "''hoge''"]
  by simp

section \<open>DELETE without conditions\<close>

lemma append_slice_nothing:
  "len (snd (append_slice grow arrays s [])) = len s"
  by (simp add: append_slice_def Let_def)

lemma delete_chain_no_conditions:
  "\<forall>cs\<in>set css. cs = [] \<Longrightarrow>
     DeleteStmt.table (snd (delete_chain grow h s css)) = DeleteStmt.table s \<and>
     len (DeleteStmt.conds (snd (delete_chain grow h s css))) = len (DeleteStmt.conds s)"
proof (induction css arbitrary: h s)
  case Nil
  show ?case by simp
next
  case (Cons cs css)
  then show ?case
    by (simp add: DeleteStmt_Where_def split_beta append_slice_nothing)
qed

text \<open>
  Claim C5. A DELETE statement built by \<^verbatim>\<open>Delete(t)\<close> and any number of
  \<^verbatim>\<open>Where\<close> calls that add no condition is a statement (construction has no
  error result: \<^verbatim>\<open>Delete\<close> and \<^verbatim>\<open>Where\<close> return a statement, here the one for
  table \<open>t\<close>), and its \<^verbatim>\<open>SQL()\<close> returns an error.
\<close>

theorem delete_without_where_fails_at_render:
  "\<forall>cs\<in>set css. cs = [] \<Longrightarrow>
     DeleteStmt.table (snd (delete_chain grow h (Delete t) css)) = t \<and>
     DeleteStmt_SQL te (fst (delete_chain grow h (Delete t) css))
       (snd (delete_chain grow h (Delete t) css)) = Err NoConditions"
proof -
  assume a: "\<forall>cs\<in>set css. cs = []"
  let ?s = "snd (delete_chain grow h (Delete t) css)"
  from delete_chain_no_conditions [OF a, of grow h "Delete t"]
  have t: "DeleteStmt.table ?s = t" and l: "len (DeleteStmt.conds ?s) = 0"
    by (simp_all add: Delete_def nil_slice_def)
  from l have "slice_elems (cond_arrays (fst (delete_chain grow h (Delete t) css))) (DeleteStmt.conds ?s) = []"
    by (simp add: slice_elems_def)
  with t show ?thesis
    by (simp add: DeleteStmt_SQL_def DeleteStmt_toAST_def ToASTWhere_def)
qed

theorem delete_without_where_fails_at_render_witness:
  "list_all (\<lambda>cs. cs = ([]::WhereCond list)) [[], []] \<and>
   DeleteStmt.table (snd (delete_chain growslice empty_heap (Delete ''t'') [[], []])) = ''t'' \<and>
   DeleteStmt_SQL ToExpr (fst (delete_chain growslice empty_heap (Delete ''t'') [[], []]))
     (snd (delete_chain growslice empty_heap (Delete ''t'') [[], []])) = Err NoConditions"
  using delete_without_where_fails_at_render [of "[[], []]" growslice empty_heap "''t''" ToExpr]
  by simp

text \<open>
  Claim C6. In the variant of \<^verbatim>\<open>Delete\<close> that takes the conditions at
  construction, \<^verbatim>\<open>SQL()\<close> of a statement constructed with zero conditions reads
  \<^verbatim>\<open>conds[0]\<close> of an empty slice: an index-out-of-range panic, not an error
  result.
\<close>

theorem delete_variadic_no_conditions_panics:
  "DeleteStmt_SQL_variadic te (Delete_variadic t []) = Panic IndexOutOfRange"
  by (simp add: DeleteStmt_SQL_variadic_def DeleteStmt_toAST_variadic_def Delete_variadic_def)

section \<open>The value source of INSERT\<close>

text \<open>
  Claim C10. When the value source of an INSERT statement is not nil and its
  kind is not slice (a struct, a map, a scalar, an array, a pointer), \<^verbatim>\<open>SQL()\<close>
  returns an error, in both definitions of \<^verbatim>\<open>InsertStmt.toAST\<close>.
\<close>

theorem insert_non_slice_source_is_error:
  "values' s \<noteq> VNil \<Longrightarrow> kind_of (values' s) \<noteq> Slice \<Longrightarrow>
     InsertStmt_SQL te s = Err CantCreateInsertInput \<and>
     InsertStmt_SQL_variadic te s = Err ValuesNotSlice"
  by (simp add: InsertStmt_SQL_def InsertStmt_toAST_def InsertStmt_SQL_variadic_def
      InsertStmt_toAST_variadic_def)

theorem insert_non_slice_source_is_error_witness:
  "values' (Values (Insert ''t'' [''a'']) (VStruct ''main.Row'' [(''A'', ''a'', True, VInt 1)])) \<noteq> VNil \<and>
   kind_of (values' (Values (Insert ''t'' [''a'']) (VStruct ''main.Row'' [(''A'', ''a'', True, VInt 1)]))) \<noteq> Slice \<and>
   InsertStmt_SQL ToExpr (Values (Insert ''t'' [''a'']) (VStruct ''main.Row'' [(''A'', ''a'', True, VInt 1)]))
     = Err CantCreateInsertInput \<and>
   InsertStmt_SQL_variadic ToExpr (Values (Insert ''t'' [''a'']) (VStruct ''main.Row'' [(''A'', ''a'', True, VInt 1)]))
     = Err ValuesNotSlice"
  using insert_non_slice_source_is_error
    [of "Values (Insert ''t'' [''a'']) (VStruct ''main.Row'' [(''A'', ''a'', True, VInt 1)])" ToExpr]
  by (simp add: Values_def)

section \<open>Rows from slices\<close>

lemma sliceRowLoop_ok:
  "\<forall>x\<in>set xs. te x = Ok (enc x) \<Longrightarrow>
     sliceRowLoop te xs exprs = Ok (ValuesRow (exprs @ map (\<lambda>x. DefaultExpr (enc x)) xs))"
  by (induction xs arbitrary: exprs) simp_all

text \<open>
  Claim C9. A row that is a slice is encoded element by element, in order,
  by \<^verbatim>\<open>ToExpr\<close>; when every element is encodable the row encodes, whatever its
  length and whatever the column list of the statement (the statement \<open>s\<close> and
  the columns \<open>cs\<close> are arbitrary), and \<^verbatim>\<open>SQL()\<close> renders it.
\<close>

theorem slice_row_length_unchecked:
  "\<forall>x\<in>set xs. te x = Ok (enc x) \<Longrightarrow>
     sliceToValuesRow te s (VSlice T xs) = Ok (ValuesRow (map (\<lambda>x. DefaultExpr (enc x)) xs)) \<and>
     toValuesRow te s (VSlice T xs) = Ok (ValuesRow (map (\<lambda>x. DefaultExpr (enc x)) xs)) \<and>
     InsertStmt_SQL te (Values (Insert t cs) (VSlice T' [VSlice T xs])) =
       Ok (SQL (Insert_node (Ident t) (map Ident cs)
                  (ValuesInput [ValuesRow (map (\<lambda>x. DefaultExpr (enc x)) xs)])))"
proof -
  assume e: "\<forall>x\<in>set xs. te x = Ok (enc x)"
  have a: "sliceToValuesRow te s' (VSlice T xs) = Ok (ValuesRow (map (\<lambda>x. DefaultExpr (enc x)) xs))" for s'
    using sliceRowLoop_ok [OF e, of "[]"] by (simp add: sliceToValuesRow_def)
  then have b: "toValuesRow te s' (VSlice T xs) = Ok (ValuesRow (map (\<lambda>x. DefaultExpr (enc x)) xs))" for s'
    by (simp add: toValuesRow_def)
  show ?thesis
    by (simp add: a b InsertStmt_SQL_def InsertStmt_toAST_def sliceToInsertInput_def
        Values_def Insert_def)
qed

theorem slice_row_length_unchecked_witness:
  "list_all (\<lambda>x. ToExpr x = Ok (case ToExpr x of Ok e \<Rightarrow> e | _ \<Rightarrow> NullLiteral))
      [VInt 1, VString ''x'', VNil] \<and>
   sliceToValuesRow ToExpr (Insert ''t'' [''a'']) (VSlice ''[]interface {}'' [VInt 1, VString ''x'', VNil])
     = Ok (ValuesRow [DefaultExpr (IntLiteral 1), DefaultExpr (StringLiteral ''x''), DefaultExpr NullLiteral]) \<and>
   InsertStmt_SQL ToExpr (Values (Insert ''t'' [''a''])
       (VSlice ''[][]interface {}'' [VSlice ''[]interface {}'' [VInt 1, VString ''x'', VNil]]))
     = Ok (SQL (Insert_node (Ident ''t'') [Ident ''a'']
         (ValuesInput [ValuesRow [DefaultExpr (IntLiteral 1), DefaultExpr (StringLiteral ''x''),
                                  DefaultExpr NullLiteral]])))"
  using slice_row_length_unchecked [of "[VInt 1, VString ''x'', VNil]" ToExpr
      "\<lambda>x. case ToExpr x of Ok e \<Rightarrow> e | _ \<Rightarrow> NullLiteral" "Insert ''t'' [''a'']"
      "''[]interface {}''" "''t''" "[''a'']" "''[][]interface {}''"]
  by simp

text \<open>
  What \<^verbatim>\<open>InsertStmt.toAST\<close> checks of the value source: a nil source gives
  "neither VALUES nor SELECT specified", an empty slice "empty values", and
  \<^verbatim>\<open>SQL()\<close> succeeds only on a non-empty slice.
\<close>

lemma insert_source_checks:
  "(values' s = VNil \<longrightarrow> InsertStmt_SQL te s = Err NoInputSpecified) \<and>
   (values' s = VSlice T [] \<longrightarrow> InsertStmt_SQL te s = Err EmptyValues) \<and>
   (InsertStmt_SQL te s = Ok q \<longrightarrow> (\<exists>T' rowIs. values' s = VSlice T' rowIs \<and> rowIs \<noteq> []))"
proof (intro conjI impI)
  show "values' s = VNil \<Longrightarrow> InsertStmt_SQL te s = Err NoInputSpecified"
    by (simp add: InsertStmt_SQL_def InsertStmt_toAST_def)
  show "values' s = VSlice T [] \<Longrightarrow> InsertStmt_SQL te s = Err EmptyValues"
    by (simp add: InsertStmt_SQL_def InsertStmt_toAST_def sliceToInsertInput_def)
  show "InsertStmt_SQL te s = Ok q \<Longrightarrow> \<exists>T' rowIs. values' s = VSlice T' rowIs \<and> rowIs \<noteq> []"
    by (cases "values' s")
       (auto simp: InsertStmt_SQL_def InsertStmt_toAST_def sliceToInsertInput_def Let_def
             split: result.splits if_splits)
qed

text \<open>
  Claim C2, evaluated where it fails. The claim has \<^verbatim>\<open>SQL()\<close> fail when the
  column list is empty. \<^verbatim>\<open>InsertStmt.toAST\<close> guards the value source but never
  the column list (\<^verbatim>\<open>SelectStmt.toAST\<close> does guard its own): on
  \<^verbatim>\<open>Insert("t", []string{}).Values([][]int{{1}})\<close> it returns no error and
  hands the renderer an INSERT with no column.
\<close>

theorem insert_empty_columns_renders:
  "InsertStmt.cols (Values (Insert ''t'' []) (VSlice ''[][]int'' [VSlice ''[]int'' [VInt 1]])) = [] \<and>
   InsertStmt_SQL ToExpr (Values (Insert ''t'' []) (VSlice ''[][]int'' [VSlice ''[]int'' [VInt 1]]))
     = Ok (SQL (Insert_node (Ident ''t'') [] (ValuesInput [ValuesRow [DefaultExpr (IntLiteral 1)]]))) \<and>
   SelectStmt_SQL ToExpr empty_heap (Select ''t'' []) = Err NoColumnsSpecified"
  by (simp add: Values_def Insert_def InsertStmt_SQL_def InsertStmt_toAST_def sliceToInsertInput_def
      toValuesRow_def sliceToValuesRow_def SelectStmt_SQL_def SelectStmt_toAST_def Select_def
      nil_slice_def)

section \<open>Rows from structs\<close>

lemma fieldLoop_ok:
  "\<forall>ft\<in>set fts. columnNameOf ft = Some c \<longrightarrow> fexported ft \<and> te (fvalue ft) = Ok (enc (fvalue ft)) \<Longrightarrow>
     fieldLoop te c fts (found, exprs) =
       Ok (found \<or> matching c fts \<noteq> [],
           exprs @ map (\<lambda>ft. DefaultExpr (enc (fvalue ft))) (matching c fts))"
proof (induction fts arbitrary: found exprs)
  case Nil
  show ?case by (simp add: matching_def)
next
  case (Cons ft fts)
  then show ?case by (cases "columnNameOf ft") (auto simp: matching_def)
qed

lemma columnLoop_ok:
  "\<forall>c\<in>set cs. \<forall>ft\<in>set fts. columnNameOf ft = Some c \<longrightarrow>
       fexported ft \<and> te (fvalue ft) = Ok (enc (fvalue ft)) \<Longrightarrow>
   \<forall>c\<in>set cs. matching c fts \<noteq> [] \<Longrightarrow>
     columnLoop te T fts cs exprs =
       Ok (ValuesRow (exprs @ concat (map (\<lambda>c. map (\<lambda>ft. DefaultExpr (enc (fvalue ft))) (matching c fts)) cs)))"
proof (induction cs arbitrary: exprs)
  case Nil
  show ?case by simp
next
  case (Cons c cs)
  from Cons.prems have "\<forall>ft\<in>set fts. columnNameOf ft = Some c \<longrightarrow>
       fexported ft \<and> te (fvalue ft) = Ok (enc (fvalue ft))" by simp
  from fieldLoop_ok [OF this] Cons show ?case by simp
qed









lemma concat_length_ge:
  "\<forall>c\<in>set cs. g c \<noteq> [] \<Longrightarrow> length cs \<le> length (concat (map g cs))"
proof (induction cs)
  case Nil
  show ?case by simp
next
  case (Cons c cs)
  then have a: "length cs \<le> length (concat (map g cs))" by simp
  from Cons.prems have b: "Suc 0 \<le> length (g c)" by (cases "g c") simp_all
  have e: "length (concat (map g (c # cs))) = length (g c) + length (concat (map g cs))" by simp
  have l: "length (c # cs) = Suc (length cs)" by simp
  from a b e l show ?case by linarith
qed

lemma concat_length_gt:
  "\<forall>c\<in>set cs. g c \<noteq> [] \<Longrightarrow> \<exists>c\<in>set cs. 1 < length (g c) \<Longrightarrow>
     length cs < length (concat (map g cs))"
proof (induction cs)
  case Nil
  then show ?case by simp
next
  case (Cons c cs)
  have e: "length (concat (map g (c # cs))) = length (g c) + length (concat (map g cs))" by simp
  have l: "length (c # cs) = Suc (length cs)" by simp
  show ?case
  proof (cases "1 < length (g c)")
    case True
    from Cons.prems have "length cs \<le> length (concat (map g cs))"
      by (intro concat_length_ge) simp
    with True e l show ?thesis by linarith
  next
    case False
    with Cons.prems have "\<exists>c\<in>set cs. 1 < length (g c)" by auto
    with Cons have a: "length cs < length (concat (map g cs))" by simp
    from Cons.prems have b: "Suc 0 \<le> length (g c)" by (cases "g c") simp_all
    from a b e l show ?thesis by linarith
  qed
qed

text \<open>
  Claim C8. When every column is resolved by some field and some column by
  more than one, the row holds one expression for each field that resolves to
  each column (column by column, fields in declaration order), so it is longer
  than the column list: neither the first match alone nor a rejection.
\<close>

theorem struct_row_duplicate_fields:
  assumes enc: "\<forall>c\<in>set (InsertStmt.cols s). \<forall>ft\<in>set fts. columnNameOf ft = Some c \<longrightarrow>
                   fexported ft \<and> te (fvalue ft) = Ok (enc (fvalue ft))"
    and found: "\<forall>c\<in>set (InsertStmt.cols s). matching c fts \<noteq> []"
    and dup: "\<exists>c\<in>set (InsertStmt.cols s). 1 < length (matching c fts)"
  shows "structToValuesRow te s (VStruct T fts) =
           Ok (ValuesRow (concat (map (\<lambda>c. map (\<lambda>ft. DefaultExpr (enc (fvalue ft))) (matching c fts))
                 (InsertStmt.cols s)))) \<and>
         length (InsertStmt.cols s) <
           length (concat (map (\<lambda>c. map (\<lambda>ft. DefaultExpr (enc (fvalue ft))) (matching c fts))
                 (InsertStmt.cols s)))"
proof
  show "structToValuesRow te s (VStruct T fts) =
           Ok (ValuesRow (concat (map (\<lambda>c. map (\<lambda>ft. DefaultExpr (enc (fvalue ft))) (matching c fts))
                 (InsertStmt.cols s))))"
    using columnLoop_ok [OF enc found, of T "[]"] by simp
  show "length (InsertStmt.cols s) <
           length (concat (map (\<lambda>c. map (\<lambda>ft. DefaultExpr (enc (fvalue ft))) (matching c fts))
                 (InsertStmt.cols s)))"
    using found dup
    by (intro concat_length_gt) simp_all
qed


theorem struct_row_duplicate_fields_witness:
  "list_all (\<lambda>c.
      \<forall>ft\<in>set [(''A'', ''a'', True, VInt 1), (''B'', ''a'', True, VInt 2)].
        columnNameOf ft = Some c \<longrightarrow>
        fexported ft \<and> ToExpr (fvalue ft) = Ok (case ToExpr (fvalue ft) of Ok e \<Rightarrow> e | _ \<Rightarrow> NullLiteral))
     (InsertStmt.cols (Insert ''t'' [''a''])) \<and>
   list_all (\<lambda>c. matching c [(''A'', ''a'', True, VInt 1), (''B'', ''a'', True, VInt 2)] \<noteq> [])
     (InsertStmt.cols (Insert ''t'' [''a''])) \<and>
   (\<exists>c\<in>set (InsertStmt.cols (Insert ''t'' [''a''])).
      1 < length (matching c [(''A'', ''a'', True, VInt 1), (''B'', ''a'', True, VInt 2)])) \<and>
   structToValuesRow ToExpr (Insert ''t'' [''a''])
      (VStruct ''main.Row'' [(''A'', ''a'', True, VInt 1), (''B'', ''a'', True, VInt 2)])
     = Ok (ValuesRow [DefaultExpr (IntLiteral 1), DefaultExpr (IntLiteral 2)]) \<and>
   length (InsertStmt.cols (Insert ''t'' [''a''])) < length [DefaultExpr (IntLiteral 1), DefaultExpr (IntLiteral 2)]"
  using struct_row_duplicate_fields [of "Insert ''t'' [''a'']"
      "[(''A'', ''a'', True, VInt 1), (''B'', ''a'', True, VInt 2)]"
      ToExpr "\<lambda>v. case ToExpr v of Ok e \<Rightarrow> e | _ \<Rightarrow> NullLiteral" "''main.Row''"]
  by (simp add: Insert_def columnNameOf_def matching_def fname_def ftag_def fexported_def fvalue_def)

section \<open>Statements that share a backing array\<close>

text \<open>
  What \<^verbatim>\<open>append\<close> does keep: the result holds the elements of the receiver
  followed by the new ones, and the elements of the receiver itself (its
  first \<open>len\<close> cells) are not changed.
\<close>

lemma append_slice_result:
  "(ptr s < length arrays \<and> len s \<le> length (arrays ! ptr s)) \<or> (len s = 0 \<and> cap s = 0) \<Longrightarrow>
     slice_elems (fst (append_slice grow arrays s xs)) (snd (append_slice grow arrays s xs))
       = slice_elems arrays s @ xs"
  by (auto simp: append_slice_def slice_elems_def Let_def)

lemma append_slice_receiver_unchanged:
  "(ptr s < length arrays \<and> len s \<le> length (arrays ! ptr s)) \<or> (len s = 0 \<and> cap s = 0) \<Longrightarrow>
     slice_elems (fst (append_slice grow arrays s xs)) s = slice_elems arrays s"
  by (auto simp: append_slice_def slice_elems_def Let_def nth_append)

text \<open>
  Claim C1, evaluated where it fails. After three \<^verbatim>\<open>Where\<close> calls of one
  condition each, the slice of the statement has length 3 and capacity 4. Two
  statements derived from it by one more \<^verbatim>\<open>Where\<close> each share its array: the
  second \<^verbatim>\<open>Where\<close> overwrites the condition that the first one appended, the
  clause list of the first derived statement changes and so does its SQL. The
  same holds for \<^verbatim>\<open>DeleteStmt.Where\<close>.
\<close>

theorem where_append_shares_backing_array:
  "(let s0 = Select ''t'' [''a''];
        (h1, s1) = SelectStmt_Where growslice empty_heap s0 [BooleanLiteral True];
        (h2, s2) = SelectStmt_Where growslice h1 s1 [Parameter ''p''];
        (h3, s3) = SelectStmt_Where growslice h2 s2 [Parameter ''q''];
        (h4, sA) = SelectStmt_Where growslice h3 s3 [IntegerLiteral 1];
        (h5, sB) = SelectStmt_Where growslice h4 s3 [IntegerLiteral 2]
    in slice_elems (cond_arrays h4) (SelectStmt.conds sA)
         = [BooleanLiteral True, Parameter ''p'', Parameter ''q'', IntegerLiteral 1] \<and>
       slice_elems (cond_arrays h5) (SelectStmt.conds sA)
         = [BooleanLiteral True, Parameter ''p'', Parameter ''q'', IntegerLiteral 2] \<and>
       slice_elems (cond_arrays h5) (SelectStmt.conds sB)
         = [BooleanLiteral True, Parameter ''p'', Parameter ''q'', IntegerLiteral 2] \<and>
       SelectStmt_SQL ToExpr h4 sA \<noteq> SelectStmt_SQL ToExpr h5 sA) \<and>
   (let (h3, d3) = delete_chain growslice empty_heap (Delete ''t'')
                     [[BooleanLiteral True], [Parameter ''p''], [Parameter ''q'']];
        (h4, dA) = DeleteStmt_Where growslice h3 d3 [IntegerLiteral 1];
        (h5, dB) = DeleteStmt_Where growslice h4 d3 [IntegerLiteral 2]
    in slice_elems (cond_arrays h4) (DeleteStmt.conds dA)
         = [BooleanLiteral True, Parameter ''p'', Parameter ''q'', IntegerLiteral 1] \<and>
       slice_elems (cond_arrays h5) (DeleteStmt.conds dA)
         = [BooleanLiteral True, Parameter ''p'', Parameter ''q'', IntegerLiteral 2])"
  by (simp add: Select_def Delete_def SelectStmt_Where_def DeleteStmt_Where_def append_slice_def
      growslice_def empty_heap_def nil_slice_def slice_elems_def Let_def
      SelectStmt_SQL_def SelectStmt_toAST_def ToASTWhere_def)

end
